theory Spec2Isabelle
  imports Complex_Main
begin

section \<open>The convolution block of laia.models.htr.conv_block\<close>

text \<open>
  The block is a Python class \<^verbatim>\<open>ConvBlock(nn.Module)\<close> with a constructor, a forward
  pass and two relocation methods. The constructor builds an ordered dictionary of
  sub-modules and a divisor tensor; the forward pass runs the sub-modules in the
  dictionary's order and rescales the per-sample sizes of a padded batch.

  The kernels of the sub-modules (dropout, convolution, batch normalisation, activation,
  max-pooling) belong to the numerical library. They are a parameter \<open>run\<close> of the
  forward pass: a function that, for a layer and a data tensor, gives the layer's output
  or the exception the layer raised.
\<close>

subsection \<open>Arguments of the constructor\<close>

text \<open>
  \<^verbatim>\<open>kernel_size\<close>, \<^verbatim>\<open>dilation\<close> and \<^verbatim>\<open>poolsize\<close> are either one number or a list/tuple
  of two (\<^verbatim>\<open>isinstance(v, (list, tuple))\<close> tells them apart).
\<close>

datatype 'a scalar_or_pair = Scalar 'a | Pair 'a 'a

record 'act conv_args =
  in_channels :: int
  out_channels :: int
  kernel_size :: "int scalar_or_pair"
  dilation :: "int scalar_or_pair"
  activation :: 'act
  poolsize :: "int scalar_or_pair option"
  dropout :: "real option"
  batchnorm :: bool
  inplace :: bool

subsection \<open>Tensors of sizes\<close>

datatype device = CPU | CUDA

text \<open>
  A tensor of sizes: the device it lives on, its shape, and its elements in row-major
  order. \<^verbatim>\<open>t.dim()\<close> is the length of the shape and \<^verbatim>\<open>t.size(k)\<close> its \<open>k\<close>-th entry.
  The sizes of a padded batch and the divisor of a block are \<^verbatim>\<open>LongTensor\<close>s, whose
  elements are integers; the quotient of two of them (line 68) is a floating-point tensor.
  One record serves both, with numbers as elements.
\<close>

record size_tensor =
  device :: device
  shape :: "nat list"
  elems :: "real list"

definition dim :: "size_tensor \<Rightarrow> nat" where
  "dim t = length (shape t)"

definition size_at :: "size_tensor \<Rightarrow> nat \<Rightarrow> nat" where
  "size_at t k = shape t ! k"

text \<open>\<^verbatim>\<open>torch.LongTensor(poolsize)\<close>: a fresh one-dimensional tensor on the CPU.\<close>

definition LongTensor :: "int \<times> int \<Rightarrow> size_tensor" where
  "LongTensor p =
     \<lparr>device = CPU, shape = [2], elems = [real_of_int (fst p), real_of_int (snd p)]\<rparr>"

text \<open>Row \<open>i\<close> of a matrix with two columns.\<close>

definition row :: "size_tensor \<Rightarrow> nat \<Rightarrow> real \<times> real" where
  "row t i = (elems t ! (2 * i), elems t ! (2 * i + 1))"

text \<open>
  What lines 59 and 60 assert of \<^verbatim>\<open>x.sizes\<close>: two dimensions, two columns.
\<close>

definition sizes_accepted :: "size_tensor \<Rightarrow> bool" where
  "sizes_accepted t = (dim t = 2 \<and> size_at t 1 = 2)"

text \<open>
  The sizes of a padded batch are a matrix of shape \<open>(N, 2)\<close> holding \<open>2 * N\<close> numbers.
\<close>

definition valid_sizes :: "size_tensor \<Rightarrow> bool" where
  "valid_sizes t = (sizes_accepted t \<and> length (elems t) = 2 * size_at t 0)"

subsection \<open>Errors\<close>

text \<open>
  The three assertions of the source, the library's refusal to combine tensors of two
  devices, and an exception raised inside a layer.
  \<^item> \<open>DropoutRateError\<close>: \<^verbatim>\<open>AssertionError('Dropout rate must be lower than 1.0')\<close>
  \<^item> \<open>SizesNotMatrix\<close>: \<^verbatim>\<open>AssertionError('PaddedTensor.sizes must be a matrix')\<close>
  \<^item> \<open>SizesColumns c\<close>: \<^verbatim>\<open>AssertionError('PaddedTensor.sizes must have 2 colums: Height
    and Width, c columns given instead.')\<close>
\<close>

datatype 'e error =
    DropoutRateError
  | SizesNotMatrix
  | SizesColumns nat
  | DeviceError
  | ModuleError 'e

fun is_config_error :: "'e error \<Rightarrow> bool" where
  "is_config_error DropoutRateError = True"
| "is_config_error _ = False"

fun is_shape_error :: "'e error \<Rightarrow> bool" where
  "is_shape_error SizesNotMatrix = True"
| "is_shape_error (SizesColumns c) = True"
| "is_shape_error _ = False"

subsection \<open>Layers and the block\<close>

text \<open>
  The sub-modules with the arguments the constructor passes:
  \<^verbatim>\<open>nn.Dropout(dropout, inplace=inplace)\<close>,
  \<^verbatim>\<open>nn.Conv2d(in_channels, out_channels, kernel_size, padding=padding, dilation=dilation)\<close>,
  \<^verbatim>\<open>nn.BatchNorm2d(out_channels)\<close>, \<^verbatim>\<open>activation(inplace=True)\<close> or \<^verbatim>\<open>activation()\<close>,
  \<^verbatim>\<open>nn.MaxPool2d(poolsize)\<close>. A layer is the record of these arguments; the library's
  constructors are taken to accept them.
\<close>

datatype 'act layer =
    Dropout real bool
  | Conv2d int int "int \<times> int" "int \<times> int" "int \<times> int"
  | BatchNorm2d int
  | Activation 'act bool
  | MaxPool2d "int \<times> int"

text \<open>
  The state of a block: \<^verbatim>\<open>self._modules\<close> (an ordered dictionary, here an association
  list in insertion order), \<^verbatim>\<open>self._poolsize\<close>, and the device that holds the layers'
  parameters.
\<close>

record 'act conv_block =
  modules :: "(string \<times> 'act layer) list"
  self_poolsize :: "size_tensor option"
  param_device :: device

text \<open>
  \<^verbatim>\<open>add_module(name, m)\<close> stores \<^verbatim>\<open>self._modules[name] = m\<close>: a new key goes to the end,
  a key already there keeps its place.
\<close>

fun add_module :: "string \<Rightarrow> 'a \<Rightarrow> (string \<times> 'a) list \<Rightarrow> (string \<times> 'a) list" where
  "add_module name m [] = [(name, m)]"
| "add_module name m ((k, v) # ms) =
     (if k = name then (k, m) # ms else (k, v) # add_module name m ms)"

subsection \<open>The constructor\<close>

text \<open>Lines 14 to 17: a number is repeated for both axes.\<close>

fun as_pair :: "'a scalar_or_pair \<Rightarrow> 'a \<times> 'a" where
  "as_pair (Scalar k) = (k, k)"
| "as_pair (Pair a b) = (a, b)"

text \<open>
  Python's truth value of \<^verbatim>\<open>poolsize\<close>: \<^verbatim>\<open>None\<close> and the number 0 are false, a list or
  tuple of two is true. Of \<^verbatim>\<open>dropout\<close>: \<^verbatim>\<open>None\<close> and 0.0 are false.
\<close>

fun truthy_pool :: "int scalar_or_pair option \<Rightarrow> bool" where
  "truthy_pool None = False"
| "truthy_pool (Some (Scalar k)) = (k \<noteq> 0)"
| "truthy_pool (Some (Pair a b)) = True"

fun truthy_rate :: "real option \<Rightarrow> bool" where
  "truthy_rate None = False"
| "truthy_rate (Some r) = (r \<noteq> 0)"

text \<open>Line 12: \<^verbatim>\<open>assert (not dropout or dropout < 1.0)\<close>.\<close>

definition dropout_ok :: "real option \<Rightarrow> bool" where
  "dropout_ok d = (\<not> truthy_rate d \<or> (case d of None \<Rightarrow> False | Some r \<Rightarrow> r < 1))"

text \<open>Lines 18 and 19: a true number is repeated, anything else is left as it is.\<close>

fun norm_poolsize :: "int scalar_or_pair option \<Rightarrow> int scalar_or_pair option" where
  "norm_poolsize (Some (Scalar k)) =
     (if truthy_pool (Some (Scalar k)) then Some (Pair k k) else Some (Scalar k))"
| "norm_poolsize p = p"

text \<open>
  Lines 24 to 27: the pair that becomes \<^verbatim>\<open>self._poolsize\<close>, if any. The indices
  \<^verbatim>\<open>poolsize[0]\<close> and \<^verbatim>\<open>poolsize[1]\<close> are read only when \<^verbatim>\<open>poolsize\<close> is true, and after
  line 19 a true value is a pair; the number left over is 0, and \<^verbatim>\<open>None\<close> is false.
\<close>

fun honoured :: "int scalar_or_pair option \<Rightarrow> (int \<times> int) option" where
  "honoured (Some (Pair a b)) =
     (if truthy_pool (Some (Pair a b)) \<and> 0 < a \<and> 0 < b \<and> (1 < a \<or> 1 < b)
      then Some (a, b) else None)"
| "honoured _ = None"

text \<open>Lines 34 and 35.\<close>

definition padding_of :: "int \<times> int \<Rightarrow> int \<times> int \<Rightarrow> int \<times> int" where
  "padding_of ks dl = ((fst ks - 1) div 2 * fst dl, (snd ks - 1) div 2 * snd dl)"

definition ConvBlock_init :: "'act conv_args \<Rightarrow> 'e error + 'act conv_block" where
  "ConvBlock_init a =
    (if \<not> dropout_ok (dropout a) then Inl DropoutRateError
     else
       let ks = as_pair (kernel_size a);
           dl = as_pair (dilation a);
           ps = norm_poolsize (poolsize a);
           sp = map_option LongTensor (honoured ps);
           m0 = [];
           m1 = (case dropout a of
                   Some r \<Rightarrow> if r \<noteq> 0 \<and> 0 < r
                             then add_module ''dropout'' (Dropout r (inplace a)) m0 else m0
                 | None \<Rightarrow> m0);
           padding = padding_of ks dl;
           m2 = add_module ''conv''
                  (Conv2d (in_channels a) (out_channels a) ks padding dl) m1;
           m3 = (if batchnorm a
                 then add_module ''batchnorm'' (BatchNorm2d (out_channels a)) m2 else m2);
           m4 = (if inplace a
                 then add_module ''activation'' (Activation (activation a) True) m3
                 else add_module ''activation'' (Activation (activation a) False) m3);
           m5 = (case sp of
                   Some t \<Rightarrow> add_module ''pooling'' (MaxPool2d (as_pair (the ps))) m4
                 | None \<Rightarrow> m4)
       in Inr \<lparr>modules = m5, self_poolsize = sp, param_device = CPU\<rparr>)"

subsection \<open>The forward pass\<close>

text \<open>
  Modelled from the spec: the class \<^verbatim>\<open>PaddedTensor\<close> of \<^verbatim>\<open>laia.data\<close>, which is not among
  the sources. It holds a data tensor (batch, channels, height, width) and the matrix of
  the valid height and width of each sample; \<^verbatim>\<open>PaddedTensor(data=x, sizes=xs)\<close> stores the
  two fields. The data tensor is opaque here (a type variable).
\<close>

record 't padded_tensor =
  data :: 't
  sizes :: size_tensor

text \<open>What \<^verbatim>\<open>forward\<close> takes and returns: a bare tensor or a padded one.\<close>

datatype 't batch = Tensor (the_tensor: 't) | Padded (the_padded: "'t padded_tensor")

fun is_padded :: "'t batch \<Rightarrow> bool" where
  "is_padded (Padded p) = True"
| "is_padded (Tensor x) = False"

text \<open>
  Lines 64 and 65: the loop over \<^verbatim>\<open>self._modules.values()\<close>. An exception in a layer
  ends the call.
\<close>

fun apply_modules ::
  "('act layer \<Rightarrow> 't \<Rightarrow> 'e + 't) \<Rightarrow> (string \<times> 'act layer) list \<Rightarrow> 't \<Rightarrow> 'e error + 't" where
  "apply_modules run [] x = Inr x"
| "apply_modules run ((name, m) # ms) x =
     (case run m x of
        Inl e \<Rightarrow> Inl (ModuleError e)
      | Inr y \<Rightarrow> apply_modules run ms y)"

text \<open>
  The library's \<^verbatim>\<open>/\<close> on two \<^verbatim>\<open>LongTensor\<close>s is true division: both operands are
  converted to the default floating-point type, single precision, and divided there, and
  the result is a floating-point tensor. A single-precision number has a significand of
  24 bits; conversion and division round to the nearest such number, ties to the even
  significand. Overflow and underflow are left out: they are out of reach of the
  quotient of two 64-bit integers.
\<close>

definition round_half_even :: "real \<Rightarrow> int" where
  "round_half_even y =
    (let f = \<lfloor>y\<rfloor> in
     if y - real_of_int f < 1 / 2 then f
     else if 1 / 2 < y - real_of_int f then f + 1
     else if even f then f else f + 1)"

text \<open>The gap between the single-precision numbers around \<open>x\<close>.\<close>

definition ulp32 :: "real \<Rightarrow> real" where
  "ulp32 x = 2 powr (real_of_int \<lfloor>log 2 \<bar>x\<bar>\<rfloor> - 23)"

definition float32 :: "real \<Rightarrow> real" where
  "float32 x = (if x = 0 then 0 else real_of_int (round_half_even (x / ulp32 x)) * ulp32 x)"

definition true_divide :: "real \<Rightarrow> real \<Rightarrow> real" where
  "true_divide a b = float32 (float32 a / float32 b)"

text \<open>
  Line 68, \<^verbatim>\<open>xs / self._poolsize\<close>, for \<open>xs\<close> of shape \<open>(N, 2)\<close> and a divisor of shape
  \<open>(2)\<close>: the divisor is broadcast along the rows, so the element at flat index \<open>i\<close> is
  divided by entry \<open>i mod 2\<close>. The library refuses operands on two devices. The entries
  of a divisor that the constructor retained are positive, so no division is by zero.
\<close>

definition long_div :: "size_tensor \<Rightarrow> size_tensor \<Rightarrow> 'e error + size_tensor" where
  "long_div xs p =
    (if device xs \<noteq> device p then Inl DeviceError
     else Inr (xs\<lparr>elems :=
            map (\<lambda>i. true_divide (elems xs ! i) (elems p ! (i mod 2)))
              [0..<length (elems xs)]\<rparr>))"

definition forward ::
  "('act layer \<Rightarrow> 't \<Rightarrow> 'e + 't) \<Rightarrow> 'act conv_block \<Rightarrow> 't batch \<Rightarrow> 'e error + 't batch" where
  "forward run self x =
    (case x of
       Padded p \<Rightarrow>
         let xs = sizes p; x' = data p in
         if dim xs \<noteq> 2 then Inl SizesNotMatrix
         else if size_at xs 1 \<noteq> 2 then Inl (SizesColumns (size_at xs 1))
         else (case apply_modules run (modules self) x' of
                 Inl e \<Rightarrow> Inl e
               | Inr y \<Rightarrow>
                   (case self_poolsize self of
                      Some d \<Rightarrow>
                        (case long_div xs d of
                           Inl e \<Rightarrow> Inl e
                         | Inr xs' \<Rightarrow> Inr (Padded \<lparr>data = y, sizes = xs'\<rparr>))
                    | None \<Rightarrow> Inr (Padded \<lparr>data = y, sizes = xs\<rparr>)))
     | Tensor x' \<Rightarrow>
         (case apply_modules run (modules self) x' of
            Inl e \<Rightarrow> Inl e
          | Inr y \<Rightarrow> Inr (Tensor y)))"

subsection \<open>Relocation\<close>

text \<open>
  \<^verbatim>\<open>super(ConvBlock, self).cpu()\<close> moves the parameters of the layers; the block then
  moves its divisor, when it has one. \<^verbatim>\<open>t.cpu()\<close> and \<^verbatim>\<open>t.cuda()\<close> on a tensor keep
  shape and elements.
\<close>

definition tensor_to :: "device \<Rightarrow> size_tensor \<Rightarrow> size_tensor" where
  "tensor_to dv t = t\<lparr>device := dv\<rparr>"

definition cpu :: "'act conv_block \<Rightarrow> 'act conv_block" where
  "cpu self =
    (let self1 = self\<lparr>param_device := CPU\<rparr> in
     case self_poolsize self1 of
       Some t \<Rightarrow> self1\<lparr>self_poolsize := Some (tensor_to CPU t)\<rparr>
     | None \<Rightarrow> self1)"

definition cuda :: "'act conv_block \<Rightarrow> 'act conv_block" where
  "cuda self =
    (let self1 = self\<lparr>param_device := CUDA\<rparr> in
     case self_poolsize self1 of
       Some t \<Rightarrow> self1\<lparr>self_poolsize := Some (tensor_to CUDA t)\<rparr>
     | None \<Rightarrow> self1)"

text \<open>A block that went through a sequence of relocations, the first of the list first.\<close>

fun relocate :: "device list \<Rightarrow> 'act conv_block \<Rightarrow> 'act conv_block" where
  "relocate [] b = b"
| "relocate (CPU # ds) b = relocate ds (cpu b)"
| "relocate (CUDA # ds) b = relocate ds (cuda b)"

text \<open>
  The two methods as calls on an object: blocks live in a store, a method gets the
  reference \<^verbatim>\<open>self\<close>, updates the object behind it and returns a reference.
\<close>

type_synonym 'act store = "nat \<Rightarrow> 'act conv_block"

definition cpu_call :: "nat \<Rightarrow> 'act store \<Rightarrow> nat \<times> 'act store" where
  "cpu_call self st = (self, st(self := cpu (st self)))"

definition cuda_call :: "nat \<Rightarrow> 'act store \<Rightarrow> nat \<times> 'act store" where
  "cuda_call self st = (self, st(self := cuda (st self)))"

subsection \<open>The rules of the specification\<close>

text \<open>
  The constructor's rules as the specification words them, to be compared with what the
  constructor computes. A dropout layer is present if and only if the rate is above 0.
\<close>

definition spec_has_dropout :: "real option \<Rightarrow> bool" where
  "spec_has_dropout d = (case d of Some r \<Rightarrow> 0 < r | None \<Rightarrow> False)"

text \<open>
  The suppression rule: a number stands for the symmetric pair, and a pool size is
  honoured when both dimensions are positive and at least one exceeds 1.
\<close>

definition spec_pool_rule :: "int scalar_or_pair option \<Rightarrow> (int \<times> int) option" where
  "spec_pool_rule p =
    (case p of
       None \<Rightarrow> None
     | Some q \<Rightarrow>
         if 0 < fst (as_pair q) \<and> 0 < snd (as_pair q)
            \<and> (1 < fst (as_pair q) \<or> 1 < snd (as_pair q))
         then Some (as_pair q) else None)"

text \<open>Padding of one axis: \<open>floor((kernel_size - 1) / 2) * dilation\<close>.\<close>

definition spec_padding :: "int \<Rightarrow> int \<Rightarrow> int" where
  "spec_padding k d = \<lfloor>(real_of_int k - 1) / 2\<rfloor> * d"

text \<open>
  The order of construction: dropout if the rate is above 0, convolution, batch
  normalisation if enabled, activation, pooling if the pool size passed the rule.
\<close>

definition spec_layer_sequence :: "'act conv_args \<Rightarrow> (string \<times> 'act layer) list" where
  "spec_layer_sequence a =
     (if spec_has_dropout (dropout a)
      then [(''dropout'', Dropout (the (dropout a)) (inplace a))] else [])
     @ [(''conv'',
         Conv2d (in_channels a) (out_channels a) (as_pair (kernel_size a))
           (spec_padding (fst (as_pair (kernel_size a))) (fst (as_pair (dilation a))),
            spec_padding (snd (as_pair (kernel_size a))) (snd (as_pair (dilation a))))
           (as_pair (dilation a)))]
     @ (if batchnorm a then [(''batchnorm'', BatchNorm2d (out_channels a))] else [])
     @ [(''activation'', Activation (activation a) (inplace a))]
     @ (case spec_pool_rule (poolsize a) of
          Some q \<Rightarrow> [(''pooling'', MaxPool2d q)]
        | None \<Rightarrow> [])"

subsection \<open>Sample inputs\<close>

text \<open>The defaults of the constructor's keyword arguments (lines 8 to 10).\<close>

definition default_args :: "int \<Rightarrow> int \<Rightarrow> string conv_args" where
  "default_args i out =
     \<lparr>in_channels = i, out_channels = out, kernel_size = Scalar 3, dilation = Scalar 1,
      activation = ''LeakyReLU'', poolsize = None, dropout = Some 0, batchnorm = False,
      inplace = False\<rparr>"

text \<open>
  Two stand-ins for the library's kernels: one whose data tensor is the list of the layers
  applied so far, and one where every layer raises.
\<close>

definition trace_run :: "'act layer \<Rightarrow> 'act layer list \<Rightarrow> 'e + 'act layer list" where
  "trace_run m t = Inr (t @ [m])"

definition failing_run :: "'act layer \<Rightarrow> 't \<Rightarrow> unit + 't" where
  "failing_run m t = Inl ()"

definition sizes_matrix :: "device \<Rightarrow> nat \<Rightarrow> nat \<Rightarrow> real list \<Rightarrow> size_tensor" where
  "sizes_matrix dv n c es = \<lparr>device = dv, shape = [n, c], elems = es\<rparr>"

text \<open>A block with a pooling stage of pool size (2, 2), and what the constructor builds for it.\<close>

definition pooled_args :: "string conv_args" where
  "pooled_args = (default_args 1 16)\<lparr>poolsize := Some (Pair 2 2)\<rparr>"

definition pooled_block0 :: "string conv_block" where
  "pooled_block0 =
     \<lparr>modules = [(''conv'', Conv2d 1 16 (3, 3) (1, 1) (1, 1)),
                 (''activation'', Activation ''LeakyReLU'' False),
                 (''pooling'', MaxPool2d (2, 2))],
      self_poolsize = Some (LongTensor (2, 2)), param_device = CPU\<rparr>"

text \<open>What the constructor builds from the defaults: no pooling stage.\<close>

definition plain_block0 :: "string conv_block" where
  "plain_block0 =
     \<lparr>modules = [(''conv'', Conv2d 1 16 (3, 3) (1, 1) (1, 1)),
                 (''activation'', Activation ''LeakyReLU'' False)],
      self_poolsize = None, param_device = CPU\<rparr>"

text \<open>A block with every optional layer, and what the constructor builds for it.\<close>

definition full_args :: "string conv_args" where
  "full_args =
     \<lparr>in_channels = 3, out_channels = 8, kernel_size = Pair 3 5, dilation = Scalar 2,
      activation = ''ReLU'', poolsize = Some (Scalar 2), dropout = Some (1 / 2),
      batchnorm = True, inplace = True\<rparr>"

definition full_block0 :: "string conv_block" where
  "full_block0 =
     \<lparr>modules = [(''dropout'', Dropout (1 / 2) True),
                 (''conv'', Conv2d 3 8 (3, 5) (2, 4) (2, 2)),
                 (''batchnorm'', BatchNorm2d 8),
                 (''activation'', Activation ''ReLU'' True),
                 (''pooling'', MaxPool2d (2, 2))],
      self_poolsize = Some (LongTensor (2, 2)), param_device = CPU\<rparr>"

section \<open>Properties\<close>

subsection \<open>The constructor\<close>

text \<open>After line 19 a pool size that counts as true is a pair, so the indexing is safe.\<close>

lemma norm_truthy_is_pair:
  "truthy_pool (norm_poolsize p) \<Longrightarrow> \<exists>a b. norm_poolsize p = Some (Pair a b)"
  by (cases p rule: norm_poolsize.cases) (auto split: if_splits)

lemma honoured_norm: "honoured (norm_poolsize p) = spec_pool_rule p"
  by (cases p rule: norm_poolsize.cases) (auto simp: spec_pool_rule_def)

lemma honoured_as_pair: "honoured ps = Some q \<Longrightarrow> as_pair (the ps) = q"
  by (cases ps rule: honoured.cases) (auto split: if_splits)

lemma spec_padding_div: "spec_padding k d = (k - 1) div 2 * d"
proof -
  have "\<lfloor>(real_of_int k - 1) / 2\<rfloor> = \<lfloor>real_of_int (k - 1) / real_of_int 2\<rfloor>"
    by simp
  also have "\<dots> = (k - 1) div 2"
    by (rule floor_divide_of_int_eq)
  finally show ?thesis
    by (simp add: spec_padding_def)
qed

lemma init_poolsize:
  "ConvBlock_init a = Inr b \<Longrightarrow>
     self_poolsize b = map_option LongTensor (spec_pool_rule (poolsize a))"
  by (auto simp: ConvBlock_init_def Let_def honoured_norm split: if_splits)

lemma init_param_device: "ConvBlock_init a = Inr b \<Longrightarrow> param_device b = CPU"
  by (auto simp: ConvBlock_init_def Let_def split: if_splits)

lemma init_modules: "ConvBlock_init a = Inr b \<Longrightarrow> modules b = spec_layer_sequence a"
  apply (cases "spec_pool_rule (poolsize a)")
   apply (auto simp: ConvBlock_init_def Let_def honoured_norm spec_layer_sequence_def
      spec_has_dropout_def spec_padding_div padding_of_def
      dest: honoured_as_pair[OF honoured_norm[THEN trans]]
      split: if_splits option.splits)
  done

lemma keys_layer_sequence:
  "map fst (spec_layer_sequence a)
     = (if spec_has_dropout (dropout a) then [''dropout''] else [])
       @ [''conv''] @ (if batchnorm a then [''batchnorm''] else []) @ [''activation'']
       @ (if spec_pool_rule (poolsize a) \<noteq> None then [''pooling''] else [])"
  by (simp add: spec_layer_sequence_def split: option.splits)

lemma map_of_layer_sequence_pooling:
  "map_of (spec_layer_sequence a) ''pooling''
     = map_option MaxPool2d (spec_pool_rule (poolsize a))"
  by (simp add: spec_layer_sequence_def map_add_def split: option.splits)

lemma spec_pool_rule_pos: "spec_pool_rule p = Some (ph, pw) \<Longrightarrow> 0 < ph \<and> 0 < pw"
  by (auto simp: spec_pool_rule_def split: option.splits if_splits)

subsection \<open>The layers and the division\<close>

lemma apply_modules_error:
  "apply_modules run ms x = Inl e \<Longrightarrow> \<exists>e'. e = ModuleError e'"
  by (induction ms arbitrary: x) (auto split: sum.splits)

lemma apply_modules_trace:
  "apply_modules trace_run ms t0 = Inr (t0 @ map snd ms)"
  by (induction ms arbitrary: t0) (auto simp: trace_run_def)

lemma long_div_error: "long_div xs d = Inl e \<Longrightarrow> e = DeviceError"
  by (auto simp: long_div_def split: if_splits)

lemma long_div_row:
  assumes "long_div xs d = Inr xs'" and "2 * i + 1 < length (elems xs)"
  shows "row xs' i
    = (true_divide (fst (row xs i)) (elems d ! 0), true_divide (snd (row xs i)) (elems d ! 1))"
  using assms by (auto simp: long_div_def row_def split: if_splits)

text \<open>
  Single precision between \<open>2 ^ e\<close> and \<open>2 ^ (e + 1)\<close>: the numbers are the multiples
  of \<open>2 ^ (e - 23)\<close>.
\<close>

lemma float32_eval:
  assumes lo: "2 ^ e \<le> \<bar>x\<bar>"
    and hi: "\<bar>x\<bar> < 2 ^ Suc e"
    and e: "e \<le> 23"
  shows "float32 x = real_of_int (round_half_even (x * 2 ^ (23 - e))) / 2 ^ (23 - e)"
proof -
  have "(0::real) < 2 ^ e"
    by simp
  with lo have pos: "0 < \<bar>x\<bar>"
    by linarith
  have "2 powr real_of_int (int e) \<le> \<bar>x\<bar>"
    using lo by (simp add: powr_realpow)
  moreover have "\<bar>x\<bar> < 2 powr real_of_int (int e + 1)"
    using hi powr_realpow[of 2 "Suc e"] by (simp add: add.commute)
  ultimately have fl: "\<lfloor>log 2 \<bar>x\<bar>\<rfloor> = int e"
    using floor_log_eq_powr_iff[of "\<bar>x\<bar>" 2 "int e"] pos by simp
  have "ulp32 x = 2 powr (- real (23 - e))"
    using e by (simp add: ulp32_def fl of_nat_diff)
  also have "\<dots> = 1 / 2 ^ (23 - e)"
    by (simp add: powr_minus powr_realpow divide_simps)
  finally have u: "ulp32 x = 1 / 2 ^ (23 - e)" .
  show ?thesis
    using pos by (auto simp: float32_def u)
qed

text \<open>Small integers and their halves are single-precision numbers; a third is rounded.\<close>

lemma float32_2: "float32 2 = 2"
  by (simp add: float32_eval[of 1] round_half_even_def)

lemma float32_3: "float32 3 = 3"
  by (simp add: float32_eval[of 1] round_half_even_def)

lemma float32_4: "float32 4 = 4"
  by (simp add: float32_eval[of 2] round_half_even_def)

lemma float32_5: "float32 5 = 5"
  by (simp add: float32_eval[of 2] round_half_even_def)

lemma float32_7: "float32 7 = 7"
  by (simp add: float32_eval[of 2] round_half_even_def)

lemma float32_9: "float32 9 = 9"
  by (simp add: float32_eval[of 3] round_half_even_def)

lemma float32_5_2: "float32 (5 / 2) = 5 / 2"
  by (simp add: float32_eval[of 1] round_half_even_def)

lemma float32_7_2: "float32 (7 / 2) = 7 / 2"
  by (simp add: float32_eval[of 1] round_half_even_def)

lemma float32_9_2: "float32 (9 / 2) = 9 / 2"
  by (simp add: float32_eval[of 2] round_half_even_def)

lemma float32_7_3: "float32 (7 / 3) = 9786709 / 2 ^ 22"
  by (simp add: float32_eval[of 1] round_half_even_def)

lemma true_divide_7_2: "true_divide 7 2 = 7 / 2"
  by (simp add: true_divide_def float32_7 float32_2 float32_7_2)

lemma true_divide_9_2: "true_divide 9 2 = 9 / 2"
  by (simp add: true_divide_def float32_9 float32_2 float32_9_2)

lemma true_divide_4_2: "true_divide 4 2 = 2"
  by (simp add: true_divide_def float32_4 float32_2)

lemma true_divide_5_2: "true_divide 5 2 = 5 / 2"
  by (simp add: true_divide_def float32_5 float32_2 float32_5_2)

lemma true_divide_7_3: "true_divide 7 3 = 9786709 / 2 ^ 22"
  by (simp add: true_divide_def float32_7 float32_3 float32_7_3)

subsection \<open>Relocation\<close>

lemma cpu_modules: "modules (cpu b) = modules b"
  by (simp add: cpu_def Let_def split: option.splits)

lemma cuda_modules: "modules (cuda b) = modules b"
  by (simp add: cuda_def Let_def split: option.splits)

lemma cpu_poolsize: "self_poolsize (cpu b) = map_option (tensor_to CPU) (self_poolsize b)"
  by (simp add: cpu_def Let_def split: option.splits)

lemma cuda_poolsize: "self_poolsize (cuda b) = map_option (tensor_to CUDA) (self_poolsize b)"
  by (simp add: cuda_def Let_def split: option.splits)

lemma relocate_modules: "modules (relocate ds b) = modules b"
  by (induction ds b rule: relocate.induct) (simp_all add: cpu_modules cuda_modules)

lemma relocate_poolsize:
  "map_option elems (self_poolsize (relocate ds b)) = map_option elems (self_poolsize b)"
  by (induction ds b rule: relocate.induct)
     (simp_all add: cpu_poolsize cuda_poolsize option.map_comp comp_def tensor_to_def)

text \<open>
  A block that was built with a pooling stage, relocated or not, holds the pool size as
  its divisor, and both entries are positive.
\<close>

lemma pooled_block:
  assumes init: "(ConvBlock_init a :: 'e error + 'act conv_block) = Inr b0"
    and reloc: "b = relocate ds b0"
    and pool: "map_of (modules b) ''pooling'' = Some (MaxPool2d (ph, pw))"
  shows "\<exists>d. self_poolsize b = Some d \<and> elems d = [real_of_int ph, real_of_int pw]
           \<and> 0 < ph \<and> 0 < pw"
proof -
  have "modules b = spec_layer_sequence a"
    using init reloc by (simp add: relocate_modules init_modules)
  with pool have r: "spec_pool_rule (poolsize a) = Some (ph, pw)"
    by (auto simp: map_of_layer_sequence_pooling)
  then have "self_poolsize b0 = Some (LongTensor (ph, pw))"
    using init_poolsize[OF init] by simp
  then have "map_option elems (self_poolsize b) = Some [real_of_int ph, real_of_int pw]"
    using relocate_poolsize[of ds b0] reloc by (simp add: LongTensor_def)
  with spec_pool_rule_pos[OF r] show ?thesis by auto
qed

lemma unpooled_block:
  assumes init: "(ConvBlock_init a :: 'e error + 'act conv_block) = Inr b0"
    and reloc: "b = relocate ds b0"
    and nopool: "map_of (modules b) ''pooling'' = None"
  shows "self_poolsize b = None"
proof -
  have "modules b = spec_layer_sequence a"
    using init reloc by (simp add: relocate_modules init_modules)
  with nopool have "spec_pool_rule (poolsize a) = None"
    by (simp add: map_of_layer_sequence_pooling)
  then have "self_poolsize b0 = None"
    using init_poolsize[OF init] by simp
  then show ?thesis
    using relocate_poolsize[of ds b0] reloc by simp
qed

subsection \<open>The forward pass\<close>

lemma forward_tensor:
  "forward run b (Tensor x) =
     (case apply_modules run (modules b) x of Inl e \<Rightarrow> Inl e | Inr y \<Rightarrow> Inr (Tensor y))"
  by (simp add: forward_def)

lemma forward_padded_ok:
  assumes "sizes_accepted (sizes p)"
  shows "forward run b (Padded p) =
    (case apply_modules run (modules b) (data p) of
       Inl e \<Rightarrow> Inl e
     | Inr y \<Rightarrow>
         (case self_poolsize b of
            Some d \<Rightarrow> (case long_div (sizes p) d of
                         Inl e \<Rightarrow> Inl e
                       | Inr xs' \<Rightarrow> Inr (Padded \<lparr>data = y, sizes = xs'\<rparr>))
          | None \<Rightarrow> Inr (Padded \<lparr>data = y, sizes = sizes p\<rparr>)))"
  using assms by (simp add: forward_def sizes_accepted_def Let_def)

text \<open>
  What the forward pass makes of the sizes in general: for a block built with a pooling
  stage of pool size \<open>(ph, pw)\<close>, each row \<open>(h, w)\<close> becomes the pair of the library's
  quotients.
\<close>

lemma pooled_row_quotient:
  fixes run :: "'act layer \<Rightarrow> 't \<Rightarrow> 'x + 't"
  assumes init: "(ConvBlock_init a :: 'e error + 'act conv_block) = Inr b0"
    and reloc: "b = relocate ds b0"
    and pool: "map_of (modules b) ''pooling'' = Some (MaxPool2d (ph, pw))"
    and valid: "valid_sizes (sizes p)"
    and i: "i < size_at (sizes p) 0"
    and hw: "row (sizes p) i = (h, w)"
    and out: "forward run b (Padded p) = Inr out"
  shows "is_padded out
    \<and> row (sizes (the_padded out)) i
        = (true_divide h (real_of_int ph), true_divide w (real_of_int pw))"
proof -
  obtain d where d: "self_poolsize b = Some d" "elems d = [real_of_int ph, real_of_int pw]"
    using pooled_block[OF init reloc pool] by blast
  have acc: "sizes_accepted (sizes p)" and len: "2 * i + 1 < length (elems (sizes p))"
    using valid i by (auto simp: valid_sizes_def)
  from out obtain y xs'
    where y: "long_div (sizes p) d = (Inr xs' :: 'x error + size_tensor)"
      and o: "out = Padded \<lparr>data = y, sizes = xs'\<rparr>"
    unfolding forward_padded_ok[OF acc] d by (auto split: sum.splits)
  have "row xs' i = (true_divide h (real_of_int ph), true_divide w (real_of_int pw))"
    using long_div_row[OF y len] hw d(2) by simp
  then show ?thesis
    using o by simp
qed

subsection \<open>Sample blocks\<close>

lemma init_pooled_args:
  "(ConvBlock_init pooled_args :: 'e error + string conv_block) = Inr pooled_block0"
  by (simp add: ConvBlock_init_def pooled_args_def pooled_block0_def default_args_def
      dropout_ok_def Let_def padding_of_def)

lemma init_default_args:
  "(ConvBlock_init (default_args 1 16) :: 'e error + string conv_block) = Inr plain_block0"
  by (simp add: ConvBlock_init_def plain_block0_def default_args_def
      dropout_ok_def Let_def padding_of_def)

text \<open>Without the relocation the same batch is refused: the divisor stays on the CPU.\<close>

lemma unrelocated_divisor_mismatch:
  "(forward trace_run pooled_block0
      (Padded \<lparr>data = [], sizes = sizes_matrix CUDA 2 2 [7, 9, 4, 5]\<rparr>)
      :: unit error + string layer list batch) = Inl DeviceError"
  by (simp add: forward_def Let_def pooled_block0_def sizes_matrix_def dim_def size_at_def
      trace_run_def long_div_def LongTensor_def)

lemma init_full_args:
  "(ConvBlock_init full_args :: 'e error + string conv_block) = Inr full_block0"
  by (simp add: ConvBlock_init_def full_args_def full_block0_def
      dropout_ok_def Let_def padding_of_def)

section \<open>The claims\<close>

text \<open>
  Claim C1 says that a pooling stage of pool size \<open>(ph, pw)\<close> turns a sizes row \<open>(h, w)\<close>
  into \<open>(h div ph, w div pw)\<close>. Line 68 divides with \<^verbatim>\<open>/\<close>, which is true division:
  the block built with pool size 2, given the sizes \<open>(7, 9)\<close> and \<open>(4, 5)\<close>, returns
  the sizes \<open>(3.5, 4.5)\<close> and \<open>(2, 2.5)\<close>, and \<open>(3.5, 4.5)\<close> is not \<open>(7 div 2, 9 div 2)\<close>.
\<close>

theorem pooled_sizes_true_division:
  "(ConvBlock_init pooled_args :: unit error + string conv_block) = Inr pooled_block0
   \<and> (forward trace_run pooled_block0
         (Padded \<lparr>data = [], sizes = sizes_matrix CPU 2 2 [7, 9, 4, 5]\<rparr>)
         :: unit error + string layer list batch)
       = Inr (Padded \<lparr>data = [Conv2d 1 16 (3, 3) (1, 1) (1, 1),
                               Activation ''LeakyReLU'' False, MaxPool2d (2, 2)],
                      sizes = sizes_matrix CPU 2 2 [7 / 2, 9 / 2, 2, 5 / 2]\<rparr>)
   \<and> row (sizes_matrix CPU 2 2 [7 / 2, 9 / 2, 2, 5 / 2]) 0
       \<noteq> (real_of_int (7 div 2), real_of_int (9 div 2))"
proof -
  have "long_div (sizes_matrix CPU 2 2 [7, 9, 4, 5]) (LongTensor (2, 2))
      = (Inr (sizes_matrix CPU 2 2 [7 / 2, 9 / 2, 2, 5 / 2]) :: unit error + size_tensor)"
    by (simp add: long_div_def sizes_matrix_def LongTensor_def upt_conv_Cons
        true_divide_7_2 true_divide_9_2 true_divide_4_2 true_divide_5_2)
  then have "(forward trace_run pooled_block0
         (Padded \<lparr>data = [], sizes = sizes_matrix CPU 2 2 [7, 9, 4, 5]\<rparr>)
         :: unit error + string layer list batch)
       = Inr (Padded \<lparr>data = [Conv2d 1 16 (3, 3) (1, 1) (1, 1),
                               Activation ''LeakyReLU'' False, MaxPool2d (2, 2)],
                      sizes = sizes_matrix CPU 2 2 [7 / 2, 9 / 2, 2, 5 / 2]\<rparr>)"
    by (simp add: forward_def Let_def pooled_block0_def trace_run_def)
      (simp add: sizes_matrix_def dim_def size_at_def)
  moreover have "row (sizes_matrix CPU 2 2 [7 / 2, 9 / 2, 2, 5 / 2]) 0
       \<noteq> (real_of_int (7 div 2), real_of_int (9 div 2))"
    by (simp add: row_def sizes_matrix_def)
  ultimately show ?thesis
    using init_pooled_args[where ?'e = unit] by simp
qed

text \<open>
  Claim C2. A block built without a pooling stage, whatever relocations it went through,
  retains no divisor. Given a padded batch whose sizes pass the shape check, every result
  of the forward pass is a padded batch with the very sizes tensor of the input, and the
  forward pass gives that result whenever the layers run through.
\<close>

theorem no_pooling_keeps_sizes:
  assumes init: "(ConvBlock_init a :: 'e error + 'act conv_block) = Inr b0"
    and reloc: "b = relocate ds b0"
    and nopool: "map_of (modules b) ''pooling'' = None"
    and acc: "sizes_accepted (sizes p)"
  shows "self_poolsize b = None
       \<and> (\<forall>out. forward run b (Padded p) = Inr out \<longrightarrow>
            is_padded out \<and> sizes (the_padded out) = sizes p)
       \<and> (\<forall>y. apply_modules run (modules b) (data p) = Inr y \<longrightarrow>
            forward run b (Padded p) = Inr (Padded \<lparr>data = y, sizes = sizes p\<rparr>))"
proof -
  have n: "self_poolsize b = None"
    by (rule unpooled_block[OF init reloc nopool])
  show ?thesis
    unfolding forward_padded_ok[OF acc] n by (auto split: sum.splits)
qed

theorem no_pooling_keeps_sizes_witness:
  "(ConvBlock_init (default_args 1 16) :: unit error + string conv_block) = Inr plain_block0
   \<and> map_of (modules (relocate [CUDA, CPU] plain_block0)) ''pooling'' = None
   \<and> sizes_accepted (sizes_matrix CUDA 2 2 [7, 9, 4, 5])
   \<and> (forward trace_run (relocate [CUDA, CPU] plain_block0)
         (Padded \<lparr>data = [], sizes = sizes_matrix CUDA 2 2 [7, 9, 4, 5]\<rparr>)
         :: unit error + string layer list batch)
       = Inr (Padded \<lparr>data = [Conv2d 1 16 (3, 3) (1, 1) (1, 1), Activation ''LeakyReLU'' False],
                      sizes = sizes_matrix CUDA 2 2 [7, 9, 4, 5]\<rparr>)"
proof -
  let ?b = "relocate [CUDA, CPU] plain_block0"
  let ?p = "\<lparr>data = [] :: string layer list, sizes = sizes_matrix CUDA 2 2 [7, 9, 4, 5]\<rparr>"
  have h1: "(ConvBlock_init (default_args 1 16) :: unit error + string conv_block)
      = Inr plain_block0"
    by (rule init_default_args)
  have h3: "map_of (modules ?b) ''pooling'' = None"
    by (simp add: cuda_modules cpu_modules plain_block0_def)
  have h4: "sizes_accepted (sizes ?p)"
    by (simp add: sizes_accepted_def sizes_matrix_def dim_def size_at_def)
  note inst = no_pooling_keeps_sizes[OF h1 refl h3 h4,
      of "trace_run :: string layer \<Rightarrow> string layer list \<Rightarrow> unit + string layer list"]
  have run: "apply_modules trace_run (modules ?b) (data ?p)
      = (Inr [Conv2d 1 16 (3, 3) (1, 1) (1, 1), Activation ''LeakyReLU'' False]
           :: unit error + string layer list)"
    by (simp add: trace_run_def cuda_modules cpu_modules plain_block0_def)
  from inst run have "forward trace_run ?b (Padded ?p)
      = (Inr (Padded \<lparr>data = [Conv2d 1 16 (3, 3) (1, 1) (1, 1), Activation ''LeakyReLU'' False],
                      sizes = sizes ?p\<rparr>) :: unit error + string layer list batch)"
    by blast
  with h1 h3 h4 show ?thesis
    by simp
qed

text \<open>
  Claim C3. On a padded batch the forward pass fails with a shape-contract error if and
  only if the sizes tensor does not have two dimensions or does not have two columns. The
  error does not depend on the layers: it is the same whatever \<open>run\<close> does, also when
  every layer would raise, so it comes before any layer is applied.
\<close>

theorem shape_contract_check:
  "((\<exists>e. forward run b (Padded p) = Inl e \<and> is_shape_error e)
      \<longleftrightarrow> (dim (sizes p) \<noteq> 2 \<or> size_at (sizes p) 1 \<noteq> 2))
   \<and> (dim (sizes p) \<noteq> 2 \<longrightarrow> forward run b (Padded p) = Inl SizesNotMatrix)
   \<and> (dim (sizes p) = 2 \<and> size_at (sizes p) 1 \<noteq> 2 \<longrightarrow>
        forward run b (Padded p) = Inl (SizesColumns (size_at (sizes p) 1)))"
  by (auto simp: forward_def Let_def split: sum.splits option.splits
      dest!: apply_modules_error long_div_error)

theorem shape_contract_check_witness:
  "(forward failing_run pooled_block0
      (Padded \<lparr>data = (), sizes = sizes_matrix CPU 3 1 [5, 6, 7]\<rparr>)
      :: unit error + unit batch) = Inl (SizesColumns 1)
   \<and> (forward failing_run pooled_block0
      (Padded \<lparr>data = (), sizes = sizes_matrix CPU 3 3 [5, 6, 7, 5, 6, 7, 5, 6, 7]\<rparr>)
      :: unit error + unit batch) = Inl (SizesColumns 3)
   \<and> (forward failing_run pooled_block0
      (Padded \<lparr>data = (), sizes = \<lparr>device = CPU, shape = [3], elems = [5, 6, 7]\<rparr>\<rparr>)
      :: unit error + unit batch) = Inl SizesNotMatrix
   \<and> \<not> (\<exists>e. (forward trace_run pooled_block0
      (Padded \<lparr>data = [], sizes = sizes_matrix CPU 1 2 [5, 6]\<rparr>)
      :: unit error + string layer list batch) = Inl e \<and> is_shape_error e)"
proof -
  have a: "dim (sizes_matrix CPU 3 1 [5, 6, 7]) = 2 \<and> size_at (sizes_matrix CPU 3 1 [5, 6, 7]) 1 = 1"
    and b: "dim (sizes_matrix CPU 3 3 [5, 6, 7, 5, 6, 7, 5, 6, 7]) = 2
        \<and> size_at (sizes_matrix CPU 3 3 [5, 6, 7, 5, 6, 7, 5, 6, 7]) 1 = 3"
    and c: "dim \<lparr>device = CPU, shape = [3], elems = [5, 6, 7]\<rparr> = 1"
    and d: "dim (sizes_matrix CPU 1 2 [5, 6]) = 2 \<and> size_at (sizes_matrix CPU 1 2 [5, 6]) 1 = 2"
    by (simp_all add: dim_def size_at_def sizes_matrix_def)
  show ?thesis
    using a b c d
      shape_contract_check[of "failing_run :: string layer \<Rightarrow> unit \<Rightarrow> unit + unit"
        pooled_block0 "\<lparr>data = (), sizes = sizes_matrix CPU 3 1 [5, 6, 7]\<rparr>"]
      shape_contract_check[of "failing_run :: string layer \<Rightarrow> unit \<Rightarrow> unit + unit"
        pooled_block0 "\<lparr>data = (), sizes = sizes_matrix CPU 3 3 [5, 6, 7, 5, 6, 7, 5, 6, 7]\<rparr>"]
      shape_contract_check[of "failing_run :: string layer \<Rightarrow> unit \<Rightarrow> unit + unit"
        pooled_block0 "\<lparr>data = (), sizes = \<lparr>device = CPU, shape = [3], elems = [5, 6, 7]\<rparr>\<rparr>"]
      shape_contract_check[of
        "trace_run :: string layer \<Rightarrow> string layer list \<Rightarrow> unit + string layer list"
        pooled_block0 "\<lparr>data = [], sizes = sizes_matrix CPU 1 2 [5, 6]\<rparr>"]
    by simp
qed

text \<open>
  Claim C4, as the constructor has it. Construction fails, with the configuration error,
  if and only if the dropout rate is 1 or more. It succeeds for every rate below 1: the
  rates from 0 up to 1, and also a negative rate and an absent one.
\<close>

theorem dropout_rate_check:
  "(((ConvBlock_init a :: 'e error + 'act conv_block) = Inl DropoutRateError)
      = (case dropout a of Some r \<Rightarrow> 1 \<le> r | None \<Rightarrow> False))
   \<and> ((\<exists>b. (ConvBlock_init a :: 'e error + 'act conv_block) = Inr b)
      = (case dropout a of Some r \<Rightarrow> r < 1 | None \<Rightarrow> True))
   \<and> (\<forall>e. (ConvBlock_init a :: 'e error + 'act conv_block) = Inl e \<longrightarrow> is_config_error e)"
  by (auto simp: ConvBlock_init_def dropout_ok_def Let_def split: option.splits)

theorem dropout_rate_check_witness:
  "(ConvBlock_init ((default_args 1 16)\<lparr>dropout := Some 1\<rparr>)
      :: unit error + string conv_block) = Inl DropoutRateError
   \<and> (\<exists>b. (ConvBlock_init ((default_args 1 16)\<lparr>dropout := Some (999 / 1000)\<rparr>)
      :: unit error + string conv_block) = Inr b)
   \<and> (\<exists>b. (ConvBlock_init ((default_args 1 16)\<lparr>dropout := Some (- 1 / 2)\<rparr>)
      :: unit error + string conv_block) = Inr b)"
  using dropout_rate_check[of "(default_args 1 16)\<lparr>dropout := Some 1\<rparr>",
      where ?'e = unit]
    dropout_rate_check[of "(default_args 1 16)\<lparr>dropout := Some (999 / 1000)\<rparr>",
      where ?'e = unit]
    dropout_rate_check[of "(default_args 1 16)\<lparr>dropout := Some (- 1 / 2)\<rparr>",
      where ?'e = unit]
  by simp

text \<open>
  Claim C4 as worded says that every negative rate fails. The rate \<open>-1/2\<close> is outside
  \<open>0 \<le> rate < 1\<close>, and the constructor builds the block (without a dropout layer).
\<close>

theorem dropout_negative_rate_accepted:
  "\<not> ((0::real) \<le> - 1 / 2 \<and> (- 1 / 2 :: real) < 1)
   \<and> (ConvBlock_init ((default_args 1 16)\<lparr>dropout := Some (- 1 / 2)\<rparr>)
        :: unit error + string conv_block) = Inr plain_block0"
  by (simp add: ConvBlock_init_def plain_block0_def default_args_def
      dropout_ok_def Let_def padding_of_def)

text \<open>
  Claim C5. For every block the constructor builds, the pooling stage is present and the
  divisor is retained exactly when the supplied pool size, a number standing for the
  symmetric pair, has both dimensions positive and one of them above 1; the stage and the
  divisor then hold that pool size. An absent pool size, the pair (1, 1) and a pool size
  with a zero give neither.
\<close>

theorem pool_size_suppression:
  assumes init: "(ConvBlock_init a :: 'e error + 'act conv_block) = Inr b"
  shows "map_of (modules b) ''pooling'' = map_option MaxPool2d (spec_pool_rule (poolsize a))
       \<and> self_poolsize b = map_option LongTensor (spec_pool_rule (poolsize a))
       \<and> ((''pooling'' \<in> fst ` set (modules b)) = (self_poolsize b \<noteq> None))
       \<and> ((self_poolsize b \<noteq> None)
           = (case poolsize a of
                None \<Rightarrow> False
              | Some q \<Rightarrow> 0 < fst (as_pair q) \<and> 0 < snd (as_pair q)
                         \<and> (1 < fst (as_pair q) \<or> 1 < snd (as_pair q))))"
proof -
  have m: "modules b = spec_layer_sequence a"
    by (rule init_modules[OF init])
  have p: "self_poolsize b = map_option LongTensor (spec_pool_rule (poolsize a))"
    by (rule init_poolsize[OF init])
  have k: "(''pooling'' \<in> fst ` set (modules b)) = (spec_pool_rule (poolsize a) \<noteq> None)"
    using keys_layer_sequence[of a] unfolding m set_map[symmetric] by (simp split: if_splits)
  have r: "(spec_pool_rule (poolsize a) \<noteq> None)
           = (case poolsize a of
                None \<Rightarrow> False
              | Some q \<Rightarrow> 0 < fst (as_pair q) \<and> 0 < snd (as_pair q)
                         \<and> (1 < fst (as_pair q) \<or> 1 < snd (as_pair q)))"
    by (simp add: spec_pool_rule_def split: option.splits)
  show ?thesis
    using k r by (simp add: m p map_of_layer_sequence_pooling)
qed

theorem pool_size_suppression_witness:
  "self_poolsize full_block0 = Some (LongTensor (2, 2))
   \<and> map_of (modules full_block0) ''pooling'' = Some (MaxPool2d (2, 2))
   \<and> (ConvBlock_init ((default_args 1 16)\<lparr>poolsize := Some (Pair 1 1)\<rparr>)
        :: unit error + string conv_block) = Inr plain_block0
   \<and> (ConvBlock_init ((default_args 1 16)\<lparr>poolsize := Some (Pair 0 3)\<rparr>)
        :: unit error + string conv_block) = Inr plain_block0
   \<and> (ConvBlock_init ((default_args 1 16)\<lparr>poolsize := Some (Scalar 0)\<rparr>)
        :: unit error + string conv_block) = Inr plain_block0
   \<and> self_poolsize plain_block0 = None
   \<and> ''pooling'' \<notin> fst ` set (modules plain_block0)"
proof -
  have h11: "(ConvBlock_init ((default_args 1 16)\<lparr>poolsize := Some (Pair 1 1)\<rparr>)
        :: unit error + string conv_block) = Inr plain_block0"
    and h03: "(ConvBlock_init ((default_args 1 16)\<lparr>poolsize := Some (Pair 0 3)\<rparr>)
        :: unit error + string conv_block) = Inr plain_block0"
    and h0: "(ConvBlock_init ((default_args 1 16)\<lparr>poolsize := Some (Scalar 0)\<rparr>)
        :: unit error + string conv_block) = Inr plain_block0"
    by (simp_all add: ConvBlock_init_def plain_block0_def default_args_def
        dropout_ok_def Let_def padding_of_def)
  have hf: "(ConvBlock_init full_args :: unit error + string conv_block) = Inr full_block0"
    by (rule init_full_args)
  have "self_poolsize full_block0 = Some (LongTensor (2, 2))
      \<and> map_of (modules full_block0) ''pooling'' = Some (MaxPool2d (2, 2))"
    using pool_size_suppression[OF hf] by (simp add: spec_pool_rule_def full_args_def)
  moreover have "self_poolsize plain_block0 = None
      \<and> ''pooling'' \<notin> fst ` set (modules plain_block0)"
    using pool_size_suppression[OF h11] by (simp add: spec_pool_rule_def default_args_def)
  ultimately show ?thesis
    using h11 h03 h0 by simp
qed

text \<open>
  Claim C6. For every block the constructor builds, the dictionary of layers is the
  sequence of the specification: dropout if and only if the rate is above 0, convolution,
  batch normalisation if and only if the flag is set, activation, pooling if and only if
  the pool size passes the suppression rule, in this order. The forward pass applies them
  in this order to a bare tensor and to the data of a padded batch alike: whatever the
  layers do, its data is the run of that sequence, the first layer first, and an exception
  of a layer is the exception of the call; run on layers that record themselves, it
  returns the input's record followed by that sequence.
\<close>

theorem layer_order:
  fixes run :: "'act layer \<Rightarrow> 't \<Rightarrow> 'y + 't"
    and p :: "'t padded_tensor"
    and q :: "'act layer list padded_tensor"
  assumes init: "(ConvBlock_init a :: 'e error + 'act conv_block) = Inr b"
  shows "modules b = spec_layer_sequence a
       \<and> map fst (modules b)
           = (if spec_has_dropout (dropout a) then [''dropout''] else [])
             @ [''conv''] @ (if batchnorm a then [''batchnorm''] else []) @ [''activation'']
             @ (if spec_pool_rule (poolsize a) \<noteq> None then [''pooling''] else [])
       \<and> (forward trace_run b (Tensor []) :: 'x error + 'act layer list batch)
           = Inr (Tensor (map snd (spec_layer_sequence a)))
       \<and> forward run b (Tensor x)
           = (case apply_modules run (spec_layer_sequence a) x of
                Inl e \<Rightarrow> Inl e
              | Inr y \<Rightarrow> Inr (Tensor y))
       \<and> (sizes_accepted (sizes p) \<longrightarrow>
            (\<forall>e. apply_modules run (spec_layer_sequence a) (data p) = Inl e \<longrightarrow>
                 forward run b (Padded p) = Inl e)
          \<and> (\<forall>y out. apply_modules run (spec_layer_sequence a) (data p) = Inr y
                 \<and> forward run b (Padded p) = Inr out \<longrightarrow>
                 is_padded out \<and> data (the_padded out) = y)
          \<and> (\<forall>y. apply_modules run (spec_layer_sequence a) (data p) = Inr y
                 \<and> (case self_poolsize b of
                       None \<Rightarrow> True
                     | Some d \<Rightarrow> device (sizes p) = device d) \<longrightarrow>
                 (\<exists>s. forward run b (Padded p) = Inr (Padded \<lparr>data = y, sizes = s\<rparr>))))
       \<and> (sizes_accepted (sizes q) \<longrightarrow>
            (\<forall>out. (forward trace_run b (Padded q) :: 'x error + 'act layer list batch)
                     = Inr out \<longrightarrow>
                 is_padded out
                 \<and> data (the_padded out) = data q @ map snd (spec_layer_sequence a))
          \<and> ((case self_poolsize b of
                 None \<Rightarrow> True
               | Some d \<Rightarrow> device (sizes q) = device d) \<longrightarrow>
                 (\<exists>s. (forward trace_run b (Padded q) :: 'x error + 'act layer list batch)
                    = Inr (Padded \<lparr>data = data q @ map snd (spec_layer_sequence a),
                                   sizes = s\<rparr>))))"
proof -
  have m: "modules b = spec_layer_sequence a"
    by (rule init_modules[OF init])
  have k: "map fst (modules b)
           = (if spec_has_dropout (dropout a) then [''dropout''] else [])
             @ [''conv''] @ (if batchnorm a then [''batchnorm''] else []) @ [''activation'']
             @ (if spec_pool_rule (poolsize a) \<noteq> None then [''pooling''] else [])"
    unfolding m by (rule keys_layer_sequence)
  have t0: "(forward trace_run b (Tensor []) :: 'x error + 'act layer list batch)
           = Inr (Tensor (map snd (spec_layer_sequence a)))"
    by (simp add: forward_tensor apply_modules_trace m)
  have t: "forward run b (Tensor x)
           = (case apply_modules run (spec_layer_sequence a) x of
                Inl e \<Rightarrow> Inl e
              | Inr y \<Rightarrow> Inr (Tensor y))"
    by (simp add: forward_tensor m)
  have pd: "(\<forall>e. apply_modules run (spec_layer_sequence a) (data p) = Inl e \<longrightarrow>
                 forward run b (Padded p) = Inl e)
          \<and> (\<forall>y out. apply_modules run (spec_layer_sequence a) (data p) = Inr y
                 \<and> forward run b (Padded p) = Inr out \<longrightarrow>
                 is_padded out \<and> data (the_padded out) = y)
          \<and> (\<forall>y. apply_modules run (spec_layer_sequence a) (data p) = Inr y
                 \<and> (case self_poolsize b of
                       None \<Rightarrow> True
                     | Some d \<Rightarrow> device (sizes p) = device d) \<longrightarrow>
                 (\<exists>s. forward run b (Padded p) = Inr (Padded \<lparr>data = y, sizes = s\<rparr>)))"
    if acc: "sizes_accepted (sizes p)"
    unfolding forward_padded_ok[OF acc] m
    by (auto simp: long_div_def split: sum.splits option.splits if_splits)
  have tr: "(\<forall>out. (forward trace_run b (Padded q) :: 'x error + 'act layer list batch)
                     = Inr out \<longrightarrow>
                 is_padded out
                 \<and> data (the_padded out) = data q @ map snd (spec_layer_sequence a))
          \<and> ((case self_poolsize b of
                 None \<Rightarrow> True
               | Some d \<Rightarrow> device (sizes q) = device d) \<longrightarrow>
                 (\<exists>s. (forward trace_run b (Padded q) :: 'x error + 'act layer list batch)
                    = Inr (Padded \<lparr>data = data q @ map snd (spec_layer_sequence a),
                                   sizes = s\<rparr>)))"
    if acc: "sizes_accepted (sizes q)"
    unfolding forward_padded_ok[OF acc] m apply_modules_trace
    by (auto simp: long_div_def split: sum.splits option.splits if_splits)
  show ?thesis
    using m k t0 t pd tr by blast
qed

theorem layer_order_witness:
  "modules full_block0
     = [(''dropout'', Dropout (1 / 2) True), (''conv'', Conv2d 3 8 (3, 5) (2, 4) (2, 2)),
        (''batchnorm'', BatchNorm2d 8), (''activation'', Activation ''ReLU'' True),
        (''pooling'', MaxPool2d (2, 2))]
   \<and> (forward trace_run full_block0 (Tensor []) :: unit error + string layer list batch)
     = Inr (Tensor [Dropout (1 / 2) True, Conv2d 3 8 (3, 5) (2, 4) (2, 2), BatchNorm2d 8,
                    Activation ''ReLU'' True, MaxPool2d (2, 2)])
   \<and> map fst (modules plain_block0) = [''conv'', ''activation'']
   \<and> sizes_accepted (sizes_matrix CPU 1 2 [8, 6])
   \<and> (\<exists>s. (forward trace_run full_block0
              (Padded \<lparr>data = [], sizes = sizes_matrix CPU 1 2 [8, 6]\<rparr>)
              :: unit error + string layer list batch)
          = Inr (Padded \<lparr>data = [Dropout (1 / 2) True, Conv2d 3 8 (3, 5) (2, 4) (2, 2),
                   BatchNorm2d 8, Activation ''ReLU'' True, MaxPool2d (2, 2)], sizes = s\<rparr>))"
proof -
  let ?run = "trace_run :: string layer \<Rightarrow> string layer list \<Rightarrow> unit + string layer list"
  let ?q = "\<lparr>data = [] :: string layer list, sizes = sizes_matrix CPU 1 2 [8, 6]\<rparr>"
  have hf: "(ConvBlock_init full_args :: unit error + string conv_block) = Inr full_block0"
    by (rule init_full_args)
  have hd: "(ConvBlock_init (default_args 1 16) :: unit error + string conv_block)
      = Inr plain_block0"
    by (rule init_default_args)
  have s: "spec_layer_sequence full_args
     = [(''dropout'', Dropout (1 / 2) True), (''conv'', Conv2d 3 8 (3, 5) (2, 4) (2, 2)),
        (''batchnorm'', BatchNorm2d 8), (''activation'', Activation ''ReLU'' True),
        (''pooling'', MaxPool2d (2, 2))]"
    by (simp add: spec_layer_sequence_def full_args_def spec_has_dropout_def
        spec_pool_rule_def spec_padding_div)
  have d: "spec_layer_sequence (default_args 1 16)
     = [(''conv'', Conv2d 1 16 (3, 3) (1, 1) (1, 1)),
        (''activation'', Activation ''LeakyReLU'' False)]"
    by (simp add: spec_layer_sequence_def default_args_def spec_has_dropout_def
        spec_pool_rule_def spec_padding_div)
  have acc: "sizes_accepted (sizes ?q)"
    by (simp add: sizes_accepted_def sizes_matrix_def dim_def size_at_def)
  have dev: "(case self_poolsize full_block0 of
                None \<Rightarrow> True
              | Some d \<Rightarrow> device (sizes ?q) = device d)"
    by (simp add: full_block0_def LongTensor_def sizes_matrix_def)
  note inst = layer_order[OF hf, where ?'x = unit and run = ?run and p = ?q and q = ?q and x = "[]"]
  have "modules full_block0 = spec_layer_sequence full_args
      \<and> (forward trace_run full_block0 (Tensor []) :: unit error + string layer list batch)
          = Inr (Tensor (map snd (spec_layer_sequence full_args)))"
    using inst by blast
  moreover have "\<exists>s. (forward trace_run full_block0 (Padded ?q)
              :: unit error + string layer list batch)
          = Inr (Padded \<lparr>data = data ?q @ map snd (spec_layer_sequence full_args),
                         sizes = s\<rparr>)"
    using inst acc dev by blast
  moreover have "map fst (modules plain_block0) = map fst (spec_layer_sequence (default_args 1 16))"
    using layer_order[OF hd, where ?'x = unit and run = ?run and p = ?q and q = ?q and x = "[]"] by simp
  ultimately show ?thesis
    using acc by (simp add: s d)
qed

text \<open>
  Claim C7. For every block the constructor builds, with the kernel size and the dilation
  taken as pairs (a number standing for the symmetric pair), the convolution is
  constructed with the padding \<open>floor((kernel_size - 1) / 2) * dilation\<close> on each axis.
\<close>

theorem conv_padding:
  assumes init: "(ConvBlock_init a :: 'e error + 'act conv_block) = Inr b"
    and ks: "as_pair (kernel_size a) = (kh, kw)"
    and dl: "as_pair (dilation a) = (dh, dw)"
  shows "map_of (modules b) ''conv''
     = Some (Conv2d (in_channels a) (out_channels a) (kh, kw)
         (\<lfloor>(real_of_int kh - 1) / 2\<rfloor> * dh, \<lfloor>(real_of_int kw - 1) / 2\<rfloor> * dw) (dh, dw))"
  using ks dl unfolding init_modules[OF init]
  by (simp add: spec_layer_sequence_def spec_padding_def map_add_def split: option.splits)

theorem conv_padding_witness:
  "as_pair (kernel_size full_args) = (3, 5) \<and> as_pair (dilation full_args) = (2, 2)
   \<and> map_of (modules full_block0) ''conv'' = Some (Conv2d 3 8 (3, 5) (2, 4) (2, 2))"
proof -
  have hf: "(ConvBlock_init full_args :: unit error + string conv_block) = Inr full_block0"
    by (rule init_full_args)
  have ks: "as_pair (kernel_size full_args) = (3, 5)"
    and dl: "as_pair (dilation full_args) = (2, 2)"
    by (simp_all add: full_args_def)
  have f: "\<lfloor>(real_of_int 3 - 1) / 2\<rfloor> = (1::int)" "\<lfloor>(real_of_int 5 - 1) / 2\<rfloor> = (2::int)"
    by simp_all
  show ?thesis
    using conv_padding[OF hf ks dl] ks dl f by (simp add: full_args_def)
qed

text \<open>
  Claim C8. On a bare tensor the forward pass is the run of the layers and nothing else:
  its result is a bare tensor and does not depend on the divisor. On a padded batch every
  result is a padded batch, and there is a result when the sizes pass the shape check, the
  layers run through and the sizes live on the divisor's device (if there is a divisor).
\<close>

theorem forward_preserves_kind:
  "forward run b (Tensor x) =
      (case apply_modules run (modules b) x of Inl e \<Rightarrow> Inl e | Inr y \<Rightarrow> Inr (Tensor y))
   \<and> forward run (b\<lparr>self_poolsize := sp\<rparr>) (Tensor x) = forward run b (Tensor x)
   \<and> (\<forall>out. forward run b (Tensor x) = Inr out \<longrightarrow> \<not> is_padded out)
   \<and> (\<forall>out. forward run b (Padded p) = Inr out \<longrightarrow> is_padded out)
   \<and> (\<forall>y. sizes_accepted (sizes p) \<and> apply_modules run (modules b) (data p) = Inr y
           \<and> (case self_poolsize b of None \<Rightarrow> True | Some d \<Rightarrow> device (sizes p) = device d)
         \<longrightarrow> (\<exists>s. forward run b (Padded p) = Inr (Padded \<lparr>data = y, sizes = s\<rparr>)))"
  by (auto simp: forward_def Let_def sizes_accepted_def long_div_def
      split: sum.splits option.splits if_splits)

theorem forward_preserves_kind_witness:
  "(forward trace_run pooled_block0 (Tensor [])
      :: unit error + string layer list batch)
     = Inr (Tensor [Conv2d 1 16 (3, 3) (1, 1) (1, 1), Activation ''LeakyReLU'' False,
                    MaxPool2d (2, 2)])
   \<and> (\<exists>s. (forward trace_run pooled_block0
              (Padded \<lparr>data = [], sizes = sizes_matrix CPU 2 2 [7, 9, 4, 5]\<rparr>)
              :: unit error + string layer list batch)
          = Inr (Padded \<lparr>data = [Conv2d 1 16 (3, 3) (1, 1) (1, 1),
                   Activation ''LeakyReLU'' False, MaxPool2d (2, 2)], sizes = s\<rparr>))"
proof -
  let ?run = "trace_run :: string layer \<Rightarrow> string layer list \<Rightarrow> unit + string layer list"
  let ?p = "\<lparr>data = [] :: string layer list, sizes = sizes_matrix CPU 2 2 [7, 9, 4, 5]\<rparr>"
  note inst = forward_preserves_kind[of ?run pooled_block0 "[]" None ?p]
  have run: "apply_modules ?run (modules pooled_block0) []
      = (Inr [Conv2d 1 16 (3, 3) (1, 1) (1, 1), Activation ''LeakyReLU'' False,
              MaxPool2d (2, 2)] :: unit error + string layer list)"
    by (simp add: trace_run_def pooled_block0_def)
  have acc: "sizes_accepted (sizes ?p)"
    by (simp add: sizes_accepted_def sizes_matrix_def dim_def size_at_def)
  have dev: "(case self_poolsize pooled_block0 of None \<Rightarrow> True
              | Some d \<Rightarrow> device (sizes ?p) = device d)"
    by (simp add: pooled_block0_def LongTensor_def sizes_matrix_def)
  have t: "forward ?run pooled_block0 (Tensor [])
     = Inr (Tensor [Conv2d 1 16 (3, 3) (1, 1) (1, 1), Activation ''LeakyReLU'' False,
                    MaxPool2d (2, 2)])"
    using inst run by simp
  have "\<exists>s. forward ?run pooled_block0 (Padded ?p)
          = Inr (Padded \<lparr>data = [Conv2d 1 16 (3, 3) (1, 1) (1, 1),
                   Activation ''LeakyReLU'' False, MaxPool2d (2, 2)], sizes = s\<rparr>)"
    using inst run acc dev by simp
  with t show ?thesis
    by simp
qed

text \<open>
  Claim C9. For a block with a divisor, \<^verbatim>\<open>cpu()\<close> and \<^verbatim>\<open>cuda()\<close> move the divisor to the
  target device together with the layers' parameters, and leave the layers as they are.
  A forward pass on a padded batch whose sizes live on that device then never fails with
  the device error, and gives a result when the sizes pass the shape check and the layers
  run through.
\<close>

theorem relocation_moves_divisor:
  assumes "self_poolsize b = Some t"
  shows "self_poolsize (cpu b) = Some (t\<lparr>device := CPU\<rparr>) \<and> param_device (cpu b) = CPU
       \<and> self_poolsize (cuda b) = Some (t\<lparr>device := CUDA\<rparr>) \<and> param_device (cuda b) = CUDA
       \<and> modules (cpu b) = modules b \<and> modules (cuda b) = modules b
       \<and> (device (sizes p) = CPU \<longrightarrow> forward run (cpu b) (Padded p) \<noteq> Inl DeviceError)
       \<and> (device (sizes p) = CUDA \<longrightarrow> forward run (cuda b) (Padded p) \<noteq> Inl DeviceError)
       \<and> (\<forall>y. device (sizes p) = CPU \<and> sizes_accepted (sizes p)
               \<and> apply_modules run (modules b) (data p) = Inr y \<longrightarrow>
            (\<exists>s. forward run (cpu b) (Padded p) = Inr (Padded \<lparr>data = y, sizes = s\<rparr>)))
       \<and> (\<forall>y. device (sizes p) = CUDA \<and> sizes_accepted (sizes p)
               \<and> apply_modules run (modules b) (data p) = Inr y \<longrightarrow>
            (\<exists>s. forward run (cuda b) (Padded p) = Inr (Padded \<lparr>data = y, sizes = s\<rparr>)))"
  using assms
  by (auto simp: forward_def Let_def sizes_accepted_def long_div_def cpu_def cuda_def
      tensor_to_def split: sum.splits option.splits if_splits dest: apply_modules_error)

theorem relocation_moves_divisor_witness:
  "self_poolsize pooled_block0 = Some (LongTensor (2, 2))
   \<and> self_poolsize (cuda pooled_block0) = Some ((LongTensor (2, 2))\<lparr>device := CUDA\<rparr>)
   \<and> (\<exists>s. (forward trace_run (cuda pooled_block0)
              (Padded \<lparr>data = [], sizes = sizes_matrix CUDA 2 2 [7, 9, 4, 5]\<rparr>)
              :: unit error + string layer list batch)
          = Inr (Padded \<lparr>data = [Conv2d 1 16 (3, 3) (1, 1) (1, 1),
                   Activation ''LeakyReLU'' False, MaxPool2d (2, 2)], sizes = s\<rparr>))"
proof -
  let ?run = "trace_run :: string layer \<Rightarrow> string layer list \<Rightarrow> unit + string layer list"
  let ?p = "\<lparr>data = [] :: string layer list, sizes = sizes_matrix CUDA 2 2 [7, 9, 4, 5]\<rparr>"
  have h: "self_poolsize pooled_block0 = Some (LongTensor (2, 2))"
    by (simp add: pooled_block0_def)
  note inst = relocation_moves_divisor[OF h, of ?p ?run]
  have run: "apply_modules ?run (modules pooled_block0) (data ?p)
      = (Inr [Conv2d 1 16 (3, 3) (1, 1) (1, 1), Activation ''LeakyReLU'' False,
              MaxPool2d (2, 2)] :: unit error + string layer list)"
    by (simp add: trace_run_def pooled_block0_def)
  have acc: "sizes_accepted (sizes ?p)" and dev: "device (sizes ?p) = CUDA"
    by (simp_all add: sizes_accepted_def sizes_matrix_def dim_def size_at_def)
  have "\<exists>s. forward ?run (cuda pooled_block0) (Padded ?p)
          = Inr (Padded \<lparr>data = [Conv2d 1 16 (3, 3) (1, 1) (1, 1),
                   Activation ''LeakyReLU'' False, MaxPool2d (2, 2)], sizes = s\<rparr>)"
    using inst run acc dev by blast
  with h inst show ?thesis
    by simp
qed

text \<open>
  Claim C10. Both relocation methods return the reference they were called on, with the
  object behind it relocated, so the calls can be chained.
\<close>

theorem relocation_returns_self:
  "fst (cpu_call self st) = self \<and> fst (cuda_call self st) = self
   \<and> snd (cpu_call self st) self = cpu (st self)
   \<and> snd (cuda_call self st) self = cuda (st self)
   \<and> cuda_call (fst (cpu_call self st)) (snd (cpu_call self st))
       = (self, st(self := cuda (cpu (st self))))"
  by (simp add: cpu_call_def cuda_call_def)

end
